theory Spec2Isabelle
  imports Complex_Main "HOL-Library.Log_Nat" "HOL-Library.Sublist" "HOL-Library.Word"
begin

section \<open>PolyVoice transcription service: the request handler of backend/main.py\<close>

text \<open>
  The development embeds \<^verbatim>\<open>transcribe_audio_v1\<close> of \<^verbatim>\<open>src/backend/main.py\<close> and the
  pieces of Python it relies on: \<^verbatim>\<open>str.split\<close>, \<^verbatim>\<open>str.lower\<close>, \<^verbatim>\<open>str.join\<close>, binary64
  floating point with \<^verbatim>\<open>round\<close>, the temporary file of \<^verbatim>\<open>tempfile\<close>, and the filesystem
  as an explicit store. Exceptions are values of a sum type; the outbound call to the
  transcription service and the clock are parameters of the model. The \<^verbatim>\<open>print\<close> calls
  of the handler are diagnostic output and are left out.
\<close>

subsection \<open>Python strings\<close>

text \<open>
  \<^verbatim>\<open>s.split(sep)\<close> for a one-character separator: the pieces between the occurrences
  of \<^verbatim>\<open>sep\<close>, in order; the result always has at least one piece
  (\<^verbatim>\<open>''.split('.') == ['']\<close>, \<^verbatim>\<open>'a.'.split('.') == ['a', '']\<close>).
\<close>

fun split_str :: "char \<Rightarrow> string \<Rightarrow> string list" where
  "split_str sep [] = [[]]"
| "split_str sep (c # cs) =
     (if c = sep then [] # split_str sep cs
      else (case split_str sep cs of
              [] \<Rightarrow> [[c]]
            | piece # pieces \<Rightarrow> (c # piece) # pieces))"

text \<open>
  \<^verbatim>\<open>str.lower\<close> on the ASCII letters: \<^verbatim>\<open>A\<close>..\<^verbatim>\<open>Z\<close> (codes 65..90) move to
  \<^verbatim>\<open>a\<close>..\<^verbatim>\<open>z\<close>; every other character is kept.
\<close>

definition lower_char :: "char \<Rightarrow> char" where
  "lower_char c =
     (let n = (of_char c :: nat) in if 65 \<le> n \<and> n \<le> 90 then char_of (n + 32) else c)"

definition lower :: "string \<Rightarrow> string" where
  "lower s = map lower_char s"

text \<open>\<^verbatim>\<open>sep.join(pieces)\<close>.\<close>

fun join :: "string \<Rightarrow> string list \<Rightarrow> string" where
  "join sep [] = []"
| "join sep [s] = s"
| "join sep (s # t # ss) = s @ sep @ join sep (t # ss)"

text \<open>\<^verbatim>\<open>str(n)\<close> for a natural number, as the f-string \<^verbatim>\<open>f"HTTP {exc.status_code}"\<close> prints it.\<close>

definition digit_char :: "nat \<Rightarrow> char" where
  "digit_char d = char_of (48 + d)"

function str_nat :: "nat \<Rightarrow> string" where
  "str_nat n = (if n < 10 then [digit_char n] else str_nat (n div 10) @ [digit_char (n mod 10)])"
  by pat_completeness auto
termination
  by (relation "measure id") auto

declare str_nat.simps [simp del]

subsection \<open>Python floats\<close>

text \<open>
  A Python \<^verbatim>\<open>float\<close> is an IEEE 754 binary64 number: a rational with a 53-bit
  significand. A float is modelled by the rational it denotes, and every float operation
  is the exact operation followed by \<open>fl\<close>, rounding to the nearest binary64 value with
  ties to the even significand. The exponent range is not modelled: the magnitudes the
  handler computes (a byte count over \<open>2^20\<close>, a few multiplications by constants near 1)
  stay far inside it.
\<close>

type_synonym float = rat

text \<open>\<open>ilog2 x\<close> is the integer \<open>e\<close> with \<open>2^e \<le> x < 2^(e+1)\<close>, for \<open>x > 0\<close>.\<close>

definition ilog2 :: "rat \<Rightarrow> int" where
  "ilog2 x =
     (let (p, q) = quotient_of x; d = bitlen p - bitlen q
      in if power_int 2 d \<le> x then d else d - 1)"

text \<open>Rounding a rational to the nearest integer, a tie going to the even one.\<close>

definition round_half_even :: "rat \<Rightarrow> int" where
  "round_half_even x =
     (let f = \<lfloor>x\<rfloor>; r = x - of_int f
      in if r < 1 / 2 then f
         else if 1 / 2 < r then f + 1
         else if even f then f else f + 1)"

definition fl :: "rat \<Rightarrow> float" where
  "fl x =
     (if x = 0 then 0
      else let a = \<bar>x\<bar>; ulp = power_int 2 (ilog2 a - 52)
           in sgn x * of_int (round_half_even (a / ulp)) * ulp)"

text \<open>
  The operations the handler uses: \<^verbatim>\<open>int / int\<close> (true division, correctly rounded),
  \<^verbatim>\<open>float / float\<close>, \<^verbatim>\<open>float * float\<close>, \<^verbatim>\<open>float - float\<close>, a decimal literal,
  \<^verbatim>\<open>int(x)\<close> (truncation toward zero) and \<^verbatim>\<open>round(x, ndigits)\<close>, which CPython
  computes by rounding the exact value of \<open>x\<close> to \<open>ndigits\<close> decimals, ties to even, and
  reading the decimal back as the nearest float.
\<close>

definition int_truediv :: "int \<Rightarrow> int \<Rightarrow> float" where
  "int_truediv a b = fl (of_int a / of_int b)"

definition fdiv :: "float \<Rightarrow> float \<Rightarrow> float" where
  "fdiv x y = fl (x / y)"

definition fmul :: "float \<Rightarrow> float \<Rightarrow> float" where
  "fmul x y = fl (x * y)"

definition fsub :: "float \<Rightarrow> float \<Rightarrow> float" where
  "fsub x y = fl (x - y)"

definition literal :: "rat \<Rightarrow> float" where
  "literal d = fl d"

definition py_int :: "float \<Rightarrow> int" where
  "py_int x = (if 0 \<le> x then \<lfloor>x\<rfloor> else \<lceil>x\<rceil>)"

definition py_round :: "float \<Rightarrow> nat \<Rightarrow> float" where
  "py_round x ndigits = fl (of_int (round_half_even (x * 10 ^ ndigits)) / 10 ^ ndigits)"

subsection \<open>Requests, responses and exceptions\<close>

type_synonym bytes = "8 word list"
type_synonym path = string

text \<open>
  The \<^verbatim>\<open>UploadFile\<close> the handler receives: its declared filename (Starlette types it
  \<^verbatim>\<open>Optional[str]\<close>), its declared content type, and the bytes \<^verbatim>\<open>await audio.read()\<close>
  returns.
\<close>

record UploadFile =
  filename :: "string option"
  content_type :: "string option"
  payload :: bytes

record TranscriptionResponse =
  text_str :: string
  model_used :: string
  processing_time_ms :: int
  estimated_cost :: float
  estimated_minutes :: float

record ErrorResponse =
  error :: string
  detail :: "string option"

text \<open>
  \<^verbatim>\<open>HTTPException(status_code, detail)\<close> of FastAPI, and inside the handler's outer
  \<^verbatim>\<open>try\<close> any other \<^verbatim>\<open>Exception\<close>, of which the handler uses only \<^verbatim>\<open>str(e)\<close>.
\<close>

datatype http_exception = HTTPException (status_code: nat) (exc_detail: string)

datatype exn = Http http_exception | Other string

definition HTTP_400_BAD_REQUEST :: nat where
  "HTTP_400_BAD_REQUEST = 400"

definition HTTP_500_INTERNAL_SERVER_ERROR :: nat where
  "HTTP_500_INTERNAL_SERVER_ERROR = 500"

definition SUPPORTED_FORMATS :: "string set" where
  "SUPPORTED_FORMATS = {''.m4a'', ''.mp3'', ''.wav'', ''.ogg'', ''.webm''}"

definition TRANSCRIBE_MODEL :: string where
  "TRANSCRIBE_MODEL = ''gpt-4o-mini-transcribe''"

subsection \<open>The world outside the handler\<close>

text \<open>
  The filesystem is a store from paths to contents. Every effect of the handler is also
  written to a trace, in the order it happens: reading the upload, creating and writing
  the staged file, the outbound call (with the model identifier, the bytes of the file
  handle passed and the response format), and the unlink.
\<close>

datatype event =
    UploadRead
  | FileCreate path
  | FileWrite path bytes
  | ApiCall string bytes string
  | FileUnlink path

record world =
  files :: "path \<rightharpoonup> bytes"
  trace :: "event list"

text \<open>
  What the handler cannot decide itself: the directory and the random names
  \<^verbatim>\<open>tempfile\<close> draws, the order in which Python iterates over the set
  \<^verbatim>\<open>SUPPORTED_FORMATS\<close>, the transcription service (given the model identifier, the
  response format and the audio bytes it answers with a text, \<open>Inr\<close>, or raises an
  exception whose \<^verbatim>\<open>str\<close> is the message, \<open>Inl\<close>), and the two readings of
  \<^verbatim>\<open>time.time()\<close>.
\<close>

record env =
  tmp_dir :: string
  tmp_names :: "string list"
  formats_order :: "string list"
  transcriptions_create :: "string \<Rightarrow> string \<Rightarrow> bytes \<Rightarrow> string + string"
  start_time :: float
  end_time :: float

text \<open>
  \<^verbatim>\<open>tempfile.NamedTemporaryFile(delete=False, suffix=...)\<close> opens, with exclusive
  creation, the first candidate \<^verbatim>\<open>dir/tmp<random><suffix>\<close> that does not exist yet; when
  every candidate exists it raises \<^verbatim>\<open>FileExistsError\<close>.
\<close>

fun NamedTemporaryFile :: "(path \<rightharpoonup> bytes) \<Rightarrow> string \<Rightarrow> string list \<Rightarrow> string \<Rightarrow> path option" where
  "NamedTemporaryFile fs dir [] sfx = None"
| "NamedTemporaryFile fs dir (name # names) sfx =
     (let p = dir @ ''/tmp'' @ name @ sfx
      in if fs p = None then Some p else NamedTemporaryFile fs dir names sfx)"

subsection \<open>The handler \<^verbatim>\<open>transcribe_audio_v1\<close>\<close>

text \<open>\<^verbatim>\<open>not s\<close> for an optional string: \<^verbatim>\<open>None\<close> and the empty string are falsy.\<close>

definition falsy :: "string option \<Rightarrow> bool" where
  "falsy s = (case s of None \<Rightarrow> True | Some t \<Rightarrow> t = [])"

text \<open>
  Lines 127 to 129: \<^verbatim>\<open>file_extension\<close> starts as \<^verbatim>\<open>None\<close>; for a truthy filename it is
  \<^verbatim>\<open>'.' + audio.filename.split('.')[-1].lower()\<close>. The list \<^verbatim>\<open>split\<close> returns is never
  empty (lemma \<open>split_str_not_Nil\<close>), so \<^verbatim>\<open>[-1]\<close> is its last element.
\<close>

definition parse_extension :: "string option \<Rightarrow> string option" where
  "parse_extension name =
     (case name of
        None \<Rightarrow> None
      | Some s \<Rightarrow> if s = [] then None else Some (''.'' @ lower (last (split_str CHR ''.'' s))))"

text \<open>Lines 136 and 137: \<^verbatim>\<open>if not file_extension: file_extension = '.m4a'\<close>.\<close>

definition effective_extension :: "string option \<Rightarrow> string" where
  "effective_extension ext = (if falsy ext then ''.m4a'' else (case ext of Some s \<Rightarrow> s | None \<Rightarrow> ''.m4a''))"

text \<open>Lines 157 and 158.\<close>

definition file_size_mb :: "nat \<Rightarrow> float" where
  "file_size_mb n = int_truediv (int n) (1024 * 1024)"

definition estimate_minutes :: "nat \<Rightarrow> float" where
  "estimate_minutes n = max (fdiv (file_size_mb n) (literal (1 / 2))) (literal (1 / 10))"

text \<open>
  Lines 155 to 189, the body of the inner \<^verbatim>\<open>try\<close>: the estimates, opening the staged
  file for reading, the outbound call, and the response.
\<close>

definition try_block :: "env \<Rightarrow> bytes \<Rightarrow> path \<Rightarrow> world \<Rightarrow> (exn + TranscriptionResponse) \<times> world" where
  "try_block e audio_data temp_file_path w =
     (let minutes = estimate_minutes (length audio_data)
      in case files w temp_file_path of
           None \<Rightarrow>
             (Inl (Other (''[Errno 2] No such file or directory: ''
                            @ [CHR 0x27] @ temp_file_path @ [CHR 0x27])), w)
         | Some contents \<Rightarrow>
             (let w' = w\<lparr>trace := trace w @ [ApiCall TRANSCRIBE_MODEL contents ''json'']\<rparr>
              in case transcriptions_create e TRANSCRIBE_MODEL ''json'' contents of
                   Inl msg \<Rightarrow> (Inl (Other msg), w')
                 | Inr transcript \<Rightarrow>
                     (Inr \<lparr>text_str = transcript,
                           model_used = TRANSCRIBE_MODEL,
                           processing_time_ms =
                             py_int (fmul (fsub (end_time e) (start_time e)) 1000),
                           estimated_cost = py_round (fmul minutes (literal (3 / 1000))) 6,
                           estimated_minutes = py_round minutes 2\<rparr>, w')))"

text \<open>Lines 191 to 195, the \<^verbatim>\<open>finally\<close> clause.\<close>

definition finally_block :: "path \<Rightarrow> world \<Rightarrow> world" where
  "finally_block temp_file_path w =
     (if files w temp_file_path \<noteq> None
      then w\<lparr>files := (files w)(temp_file_path := None),
              trace := trace w @ [FileUnlink temp_file_path]\<rparr>
      else w)"

text \<open>Lines 116 to 195, the body of the outer \<^verbatim>\<open>try\<close>.\<close>

definition transcribe_body :: "env \<Rightarrow> UploadFile \<Rightarrow> world \<Rightarrow> (exn + TranscriptionResponse) \<times> world" where
  "transcribe_body e audio w =
     (if falsy (filename audio)
      then (Inl (Http (HTTPException HTTP_400_BAD_REQUEST ''No audio file provided'')), w)
      else
        let ext = parse_extension (filename audio)
        in if (case ext of None \<Rightarrow> False | Some x \<Rightarrow> x \<notin> SUPPORTED_FORMATS)
           then (Inl (Http (HTTPException HTTP_400_BAD_REQUEST
                    (''Unsupported audio format. Supported formats: ''
                       @ join '', '' (formats_order e)))), w)
           else
             let file_extension = effective_extension ext;
                 audio_data = payload audio;
                 w1 = w\<lparr>trace := trace w @ [UploadRead]\<rparr>
             in if audio_data = []
                then (Inl (Http (HTTPException HTTP_400_BAD_REQUEST ''Empty audio file'')), w1)
                else
                  (case NamedTemporaryFile (files w1) (tmp_dir e) (tmp_names e) file_extension of
                     None \<Rightarrow>
                       (Inl (Other ''[Errno 17] No usable temporary file name found''), w1)
                   | Some temp_file_path \<Rightarrow>
                       (let w2 = w1\<lparr>files := (files w1)(temp_file_path \<mapsto> audio_data),
                                     trace := trace w1 @ [FileCreate temp_file_path,
                                                          FileWrite temp_file_path audio_data]\<rparr>;
                            (result, w3) = try_block e audio_data temp_file_path w2
                        in (result, finally_block temp_file_path w3))))"

text \<open>
  Lines 197 to 205: an \<^verbatim>\<open>HTTPException\<close> is raised again as it is, any other exception
  becomes status 500 with \<^verbatim>\<open>f"Transcription failed: {str(e)}"\<close>.
\<close>

definition transcribe_audio_v1 :: "env \<Rightarrow> UploadFile \<Rightarrow> world \<Rightarrow> (http_exception + TranscriptionResponse) \<times> world" where
  "transcribe_audio_v1 e audio w =
     (case transcribe_body e audio w of
        (Inl (Http exc), w') \<Rightarrow> (Inl exc, w')
      | (Inl (Other msg), w') \<Rightarrow>
          (Inl (HTTPException HTTP_500_INTERNAL_SERVER_ERROR (''Transcription failed: '' @ msg)), w')
      | (Inr result, w') \<Rightarrow> (Inr result, w'))"

subsection \<open>The route\<close>

text \<open>
  Lines 209 to 218, \<^verbatim>\<open>http_exception_handler\<close>: an \<^verbatim>\<open>HTTPException\<close> leaves as a JSON
  response with the exception's status and the body
  \<^verbatim>\<open>ErrorResponse(error=exc.detail, detail=f"HTTP {exc.status_code}")\<close>.
\<close>

datatype content =
    Transcription TranscriptionResponse
  | Error ErrorResponse
  | RequestValidationError

record http_response =
  status :: nat
  body :: content

definition http_exception_handler :: "http_exception \<Rightarrow> http_response" where
  "http_exception_handler exc =
     \<lparr>status = status_code exc,
      body = Error \<lparr>error = exc_detail exc,
                    detail = Some (''HTTP '' @ str_nat (status_code exc))\<rparr>\<rparr>"

text \<open>
  Line 106 declares the parameter as \<^verbatim>\<open>audio: UploadFile = File(...)\<close>: the multipart
  field \<^verbatim>\<open>audio\<close> is required and must be a file. A request is modelled by its part
  named \<^verbatim>\<open>audio\<close>: absent (\<open>None\<close>), a part without a \<^verbatim>\<open>filename\<close> parameter, which
  Starlette reads as a plain form value, or a part with a \<^verbatim>\<open>filename\<close> parameter, from
  which Starlette builds the \<^verbatim>\<open>UploadFile\<close>; its filename is then a string, possibly the
  empty one. FastAPI validates the parameter before it calls the handler: for a missing
  field and for a value that is not an \<^verbatim>\<open>UploadFile\<close> it does not call
  \<^verbatim>\<open>transcribe_audio_v1\<close> and answers with its request validation error, status 422;
  the application registers handlers for \<^verbatim>\<open>HTTPException\<close> and for status 500 only
  (lines 209 and 221), so that answer is sent as it is. A result the handler returns is
  sent with status 200.
\<close>

datatype audio_part =
    FormValue string
  | FilePart string "string option" bytes

definition post_transcribe :: "env \<Rightarrow> audio_part option \<Rightarrow> world \<Rightarrow> http_response \<times> world" where
  "post_transcribe e field w =
     (case field of
        None \<Rightarrow> (\<lparr>status = 422, body = RequestValidationError\<rparr>, w)
      | Some (FormValue v) \<Rightarrow> (\<lparr>status = 422, body = RequestValidationError\<rparr>, w)
      | Some (FilePart name ctype contents) \<Rightarrow>
          (case transcribe_audio_v1 e
                  \<lparr>filename = Some name, content_type = ctype, payload = contents\<rparr> w of
             (Inl exc, w') \<Rightarrow> (http_exception_handler exc, w')
           | (Inr result, w') \<Rightarrow> (\<lparr>status = 200, body = Transcription result\<rparr>, w')))"

subsection \<open>Observations on the trace, and example environments\<close>

text \<open>The outbound calls and the filesystem effects a trace records, in order.\<close>

fun api_calls :: "event list \<Rightarrow> (string \<times> bytes \<times> string) list" where
  "api_calls [] = []"
| "api_calls (ApiCall model contents fmt # evs) = (model, contents, fmt) # api_calls evs"
| "api_calls (ev # evs) = api_calls evs"

fun fs_events :: "event list \<Rightarrow> event list" where
  "fs_events [] = []"
| "fs_events (FileCreate p # evs) = FileCreate p # fs_events evs"
| "fs_events (FileWrite p contents # evs) = FileWrite p contents # fs_events evs"
| "fs_events (FileUnlink p # evs) = FileUnlink p # fs_events evs"
| "fs_events (ev # evs) = fs_events evs"

text \<open>
  Two environments for concrete runs: in the first the service answers, in the second it
  raises. The world starts with an empty filesystem and an empty trace.
\<close>

definition answering_env :: env where
  "answering_env =
     \<lparr>tmp_dir = ''/tmp'', tmp_names = [''k3x9a0pq''],
      formats_order = [''.m4a'', ''.mp3'', ''.wav'', ''.ogg'', ''.webm''],
      transcriptions_create = (\<lambda>model fmt contents. Inr ''hello world''),
      start_time = 100, end_time = 101\<rparr>"

definition failing_env :: env where
  "failing_env =
     \<lparr>tmp_dir = ''/tmp'', tmp_names = [''k3x9a0pq''],
      formats_order = [''.webm'', ''.wav'', ''.m4a'', ''.ogg'', ''.mp3''],
      transcriptions_create = (\<lambda>model fmt contents. Inl ''Connection error.''),
      start_time = 100, end_time = 101\<rparr>"

definition empty_world :: world where
  "empty_world = \<lparr>files = Map.empty, trace = []\<rparr>"

section \<open>Properties\<close>

subsection \<open>Auxiliary facts\<close>

lemma split_str_not_Nil: "split_str sep s \<noteq> []"
  by (induction s) (auto split: list.splits)

lemma split_str_no_sep: "sep \<notin> set s \<Longrightarrow> split_str sep s = [s]"
  by (induction s) auto

lemma split_str_two_pieces: "tl (split_str sep (f @ sep # x)) \<noteq> []"
  by (induction f) (auto simp: split_str_not_Nil split: list.splits)

lemma last_split_str_append:
  "sep \<notin> set x \<Longrightarrow> last (split_str sep (f @ sep # x)) = x"
proof (induction f)
  case Nil
  then show ?case by (simp add: split_str_no_sep)
next
  case (Cons c f)
  have "tl (split_str sep (f @ sep # x)) \<noteq> []"
    by (rule split_str_two_pieces)
  with Cons show ?case
    by (auto simp: split_str_not_Nil split: list.splits)
qed

lemma api_calls_append: "api_calls (xs @ ys) = api_calls xs @ api_calls ys"
  by (induction xs rule: api_calls.induct) auto

lemma fs_events_append: "fs_events (xs @ ys) = fs_events xs @ fs_events ys"
  by (induction xs rule: fs_events.induct) auto

lemma NamedTemporaryFile_fresh:
  "NamedTemporaryFile fs dir names sfx = Some p \<Longrightarrow> fs p = None"
  by (induction names) (auto simp: Let_def split: if_splits)

lemma sublist_join: "s \<in> set ss \<Longrightarrow> sublist s (join sep ss)"
proof (induction sep ss rule: join.induct)
  case (1 sep)
  then show ?case by simp
next
  case (2 sep t)
  then show ?case by simp
next
  case (3 sep t u ss)
  show ?case
  proof (cases "s = t")
    case True
    then show ?thesis by simp
  next
    case False
    with 3 have "sublist s (join sep (u # ss))" by simp
    then obtain ps qs where "join sep (u # ss) = ps @ s @ qs"
      by (auto simp: sublist_def)
    then have "join sep (t # u # ss) = (t @ sep @ ps) @ s @ qs" by simp
    then show ?thesis unfolding sublist_def by blast
  qed
qed

lemma sublist_append_left: "sublist s ys \<Longrightarrow> sublist s (xs @ ys)"
  by (metis append.assoc sublist_def)

lemma of_char_dot: "(of_char CHR ''.'' :: nat) = 46"
  by simp

lemma lower_char_dot: "lower_char c = CHR ''.'' \<longleftrightarrow> c = CHR ''.''"
proof (cases "65 \<le> (of_char c :: nat) \<and> (of_char c :: nat) \<le> 90")
  case True
  then have "of_char (lower_char c) = ((of_char c + 32) mod 256 :: nat)"
    by (simp add: lower_char_def)
  with True have "(of_char (lower_char c) :: nat) \<ge> 97"
    by simp
  then have "lower_char c \<noteq> CHR ''.''"
    using of_char_dot by force
  moreover from True have "c \<noteq> CHR ''.''"
    using of_char_dot by force
  ultimately show ?thesis by simp
next
  case False
  then have "lower_char c = c"
    by (auto simp: lower_char_def Let_def)
  then show ?thesis by simp
qed

lemma lower_dot: "CHR ''.'' \<in> set (lower x) \<longleftrightarrow> CHR ''.'' \<in> set x"
proof -
  have "CHR ''.'' \<in> lower_char ` set x \<longleftrightarrow> (\<exists>c\<in>set x. lower_char c = CHR ''.'')"
    by (metis imageE imageI)
  then show ?thesis
    by (simp add: lower_def lower_char_dot)
qed


lemma supported_no_dot: "''.'' @ s \<in> SUPPORTED_FORMATS \<Longrightarrow> CHR ''.'' \<notin> set s"
  by (auto simp: SUPPORTED_FORMATS_def)

lemma parse_extension_Some:
  "name \<noteq> [] \<Longrightarrow>
   parse_extension (Some name) = Some (''.'' @ lower (last (split_str CHR ''.'' name)))"
  by (simp add: parse_extension_def)

lemma effective_extension_Some: "effective_extension (Some (c # s)) = c # s"
  by (simp add: effective_extension_def falsy_def)

lemma try_block_staged:
  "files w p = Some d \<Longrightarrow>
   try_block e d p w =
     (case transcriptions_create e TRANSCRIBE_MODEL ''json'' d of
        Inl msg \<Rightarrow> Inl (Other msg)
      | Inr transcript \<Rightarrow>
          Inr \<lparr>text_str = transcript, model_used = TRANSCRIBE_MODEL,
               processing_time_ms = py_int (fmul (fsub (end_time e) (start_time e)) 1000),
               estimated_cost = py_round (fmul (estimate_minutes (length d)) (literal (3 / 1000))) 6,
               estimated_minutes = py_round (estimate_minutes (length d)) 2\<rparr>,
      w\<lparr>trace := trace w @ [ApiCall TRANSCRIBE_MODEL d ''json'']\<rparr>)"
  by (simp add: try_block_def Let_def split: sum.splits)

lemma transcribe_body_staged:
  assumes "filename audio = Some name" and "name \<noteq> []"
    and "''.'' @ lower (last (split_str CHR ''.'' name)) \<in> SUPPORTED_FORMATS"
    and "payload audio \<noteq> []"
    and "NamedTemporaryFile (files w) (tmp_dir e) (tmp_names e)
           (''.'' @ lower (last (split_str CHR ''.'' name))) = Some p"
  shows "transcribe_body e audio w =
     (case transcriptions_create e TRANSCRIBE_MODEL ''json'' (payload audio) of
        Inl msg \<Rightarrow> Inl (Other msg)
      | Inr transcript \<Rightarrow>
          Inr \<lparr>text_str = transcript, model_used = TRANSCRIBE_MODEL,
               processing_time_ms = py_int (fmul (fsub (end_time e) (start_time e)) 1000),
               estimated_cost =
                 py_round (fmul (estimate_minutes (length (payload audio))) (literal (3 / 1000))) 6,
               estimated_minutes = py_round (estimate_minutes (length (payload audio))) 2\<rparr>,
      w\<lparr>trace := trace w @ [UploadRead, FileCreate p, FileWrite p (payload audio),
                              ApiCall TRANSCRIBE_MODEL (payload audio) ''json'', FileUnlink p]\<rparr>)"
proof -
  from assms(5) have fresh: "files w p = None"
    by (rule NamedTemporaryFile_fresh)
  then have restore: "((files w)(p \<mapsto> payload audio))(p := None) = files w"
    by (simp add: fun_upd_idem)
  let ?w2 = "w\<lparr>files := (files w)(p \<mapsto> payload audio),
               trace := trace w @ [UploadRead, FileCreate p, FileWrite p (payload audio)]\<rparr>"
  have tb: "try_block e (payload audio) p ?w2 =
     (case transcriptions_create e TRANSCRIBE_MODEL ''json'' (payload audio) of
        Inl msg \<Rightarrow> Inl (Other msg)
      | Inr transcript \<Rightarrow>
          Inr \<lparr>text_str = transcript, model_used = TRANSCRIBE_MODEL,
               processing_time_ms = py_int (fmul (fsub (end_time e) (start_time e)) 1000),
               estimated_cost =
                 py_round (fmul (estimate_minutes (length (payload audio))) (literal (3 / 1000))) 6,
               estimated_minutes = py_round (estimate_minutes (length (payload audio))) 2\<rparr>,
      ?w2\<lparr>trace := trace ?w2 @ [ApiCall TRANSCRIBE_MODEL (payload audio) ''json'']\<rparr>)"
    by (rule try_block_staged) simp
  show ?thesis
    using assms(1-5) restore
    by (simp add: transcribe_body_def falsy_def parse_extension_Some effective_extension_Some
        Let_def tb finally_block_def)
qed

lemma transcribe_audio_v1_staged:
  assumes "filename audio = Some name" and "name \<noteq> []"
    and "''.'' @ lower (last (split_str CHR ''.'' name)) \<in> SUPPORTED_FORMATS"
    and "payload audio \<noteq> []"
    and "NamedTemporaryFile (files w) (tmp_dir e) (tmp_names e)
           (''.'' @ lower (last (split_str CHR ''.'' name))) = Some p"
  shows "transcribe_audio_v1 e audio w =
     (case transcriptions_create e TRANSCRIBE_MODEL ''json'' (payload audio) of
        Inl msg \<Rightarrow> Inl (HTTPException 500 (''Transcription failed: '' @ msg))
      | Inr transcript \<Rightarrow>
          Inr \<lparr>text_str = transcript, model_used = TRANSCRIBE_MODEL,
               processing_time_ms = py_int (fmul (fsub (end_time e) (start_time e)) 1000),
               estimated_cost =
                 py_round (fmul (estimate_minutes (length (payload audio))) (literal (3 / 1000))) 6,
               estimated_minutes = py_round (estimate_minutes (length (payload audio))) 2\<rparr>,
      w\<lparr>trace := trace w @ [UploadRead, FileCreate p, FileWrite p (payload audio),
                              ApiCall TRANSCRIBE_MODEL (payload audio) ''json'', FileUnlink p]\<rparr>)"
  by (simp add: transcribe_audio_v1_def transcribe_body_staged [OF assms]
      HTTP_500_INTERNAL_SERVER_ERROR_def split: sum.splits)

lemma try_block_not_Http: "try_block e d p w \<noteq> (Inl (Http exc), w')"
  by (simp add: try_block_def Let_def split: option.splits sum.splits)

lemma str_nat_400: "str_nat 400 = ''400''"
  by code_simp

lemma transcribe_audio_v1_no_tempfile:
  assumes "filename audio = Some name" and "name \<noteq> []"
    and "''.'' @ lower (last (split_str CHR ''.'' name)) \<in> SUPPORTED_FORMATS"
    and "payload audio \<noteq> []"
    and "NamedTemporaryFile (files w) (tmp_dir e) (tmp_names e)
           (''.'' @ lower (last (split_str CHR ''.'' name))) = None"
  shows "transcribe_audio_v1 e audio w =
     (Inl (HTTPException 500
        ''Transcription failed: [Errno 17] No usable temporary file name found''),
      w\<lparr>trace := trace w @ [UploadRead]\<rparr>)"
  using assms
  by (simp add: transcribe_audio_v1_def transcribe_body_def falsy_def parse_extension_Some
      effective_extension_Some Let_def HTTP_500_INTERNAL_SERVER_ERROR_def)

subsection \<open>Floating point: when rounding changes nothing\<close>

text \<open>
  A non-negative integer below \<open>2^53\<close> scaled by a power of two is a binary64 number, so
  \<open>fl\<close> returns it unchanged. Dividing a byte count by \<open>1024 * 1024\<close> and then by \<open>0.5\<close>
  is therefore exact for every payload shorter than \<open>2^53\<close> bytes.
\<close>

lemma bitlen_rat_bounds:
  fixes p :: int
  assumes "0 < p"
  shows "power_int (2::rat) (bitlen p - 1) \<le> of_int p" and "of_int p < power_int (2::rat) (bitlen p)"
proof -
  from assms have ge1: "1 \<le> bitlen p"
    by (auto simp: bitlen_alt_def)
  from bitlen_bounds [OF assms]
  have lo: "2 ^ nat (bitlen p - 1) \<le> p" and hi: "p < 2 ^ nat (bitlen p)"
    by auto
  from lo have "(of_int (2 ^ nat (bitlen p - 1)) :: rat) \<le> of_int p"
    by (simp only: of_int_le_iff)
  with ge1 show "power_int (2::rat) (bitlen p - 1) \<le> of_int p"
    by (simp add: power_int_def)
  from hi have "(of_int p :: rat) < of_int (2 ^ nat (bitlen p))"
    by (simp only: of_int_less_iff)
  with ge1 show "of_int p < power_int (2::rat) (bitlen p)"
    by (simp add: power_int_def)
qed

lemma ilog2_bounds:
  assumes "0 < x"
  shows "power_int 2 (ilog2 x) \<le> x \<and> x < power_int 2 (ilog2 x + 1)"
proof -
  obtain p q where pq: "quotient_of x = (p, q)"
    by (cases "quotient_of x")
  then have q: "0 < q" and x: "x = of_int p / of_int q"
    by (auto dest: quotient_of_denom_pos quotient_of_div)
  with assms have p: "0 < p"
    by (simp add: zero_less_divide_iff)
  let ?d = "bitlen p - bitlen q"
  have "of_int p / of_int q < power_int (2::rat) (bitlen p) / power_int 2 (bitlen q - 1)"
    using p q bitlen_rat_bounds [of p] bitlen_rat_bounds [of q]
    by (intro frac_less) simp_all
  also have "\<dots> = power_int 2 (?d + 1)"
    by (simp add: power_int_diff [symmetric] algebra_simps)
  finally have upper: "x < power_int 2 (?d + 1)"
    by (simp add: x)
  have "power_int (2::rat) (bitlen p - 1) / power_int 2 (bitlen q) < of_int p / of_int q"
    using p q bitlen_rat_bounds [of p] bitlen_rat_bounds [of q]
    by (intro frac_less2) simp_all
  moreover have "power_int (2::rat) (bitlen p - 1) / power_int 2 (bitlen q) = power_int 2 (?d - 1)"
    by (simp add: power_int_diff [symmetric] algebra_simps)
  ultimately have lower: "power_int 2 (?d - 1) < x"
    by (simp add: x)
  show ?thesis
  proof (cases "power_int 2 ?d \<le> x")
    case True
    with pq have "ilog2 x = ?d" by (simp add: ilog2_def)
    with True upper show ?thesis by simp
  next
    case False
    with pq have "ilog2 x = ?d - 1" by (simp add: ilog2_def)
    with False lower show ?thesis by simp
  qed
qed

lemma round_half_even_of_int: "round_half_even (of_int z) = z"
  by (simp add: round_half_even_def)

lemma fl_exact:
  fixes m :: int
  assumes "0 < m" and "m < 2 ^ 53"
  shows "fl (of_int m * power_int 2 k) = of_int m * power_int 2 k"
proof -
  define x :: rat where "x = of_int m * power_int 2 k"
  define e where "e = ilog2 x"
  from assms have pos: "0 < x" by (simp add: x_def)
  from ilog2_bounds [OF pos] have "power_int 2 e \<le> x" by (simp add: e_def)
  also have "x < 2 ^ 53 * power_int 2 k"
  proof -
    from assms(2) have "(of_int m :: rat) < of_int (2 ^ 53)"
      by (simp only: of_int_less_iff)
    then show ?thesis by (simp add: x_def)
  qed
  also have "\<dots> = power_int 2 (53 + k)"
    by (simp add: power_int_add)
  finally have lt: "power_int (2::rat) e < power_int 2 (53 + k)" .
  have le: "e - 52 \<le> k"
  proof (rule ccontr)
    assume "\<not> e - 52 \<le> k"
    then have "53 + k \<le> e" by simp
    then have "power_int (2::rat) (53 + k) \<le> power_int 2 e"
      by (intro power_int_increasing) simp_all
    with lt show False by simp
  qed
  define j where "j = nat (k - (e - 52))"
  from le have k: "k = (e - 52) + int j"
    by (simp add: j_def)
  have split: "power_int (2::rat) k = power_int 2 (e - 52) * 2 ^ j"
    by (subst k, subst power_int_add) simp_all
  have quot: "x / power_int 2 (e - 52) = of_int (m * 2 ^ j)"
    by (simp add: x_def split)
  have "fl x = of_int (round_half_even (x / power_int 2 (e - 52))) * power_int 2 (e - 52)"
    using pos by (simp add: fl_def Let_def e_def)
  also have "\<dots> = of_int (m * 2 ^ j) * power_int 2 (e - 52)"
    by (simp only: quot round_half_even_of_int)
  also have "\<dots> = x"
    by (simp add: x_def split)
  finally show ?thesis by (simp only: x_def)
qed

lemma literal_half: "literal (1 / 2) = 1 / 2"
  using fl_exact [of 1 "-1"] by (simp add: literal_def)

lemma fl_exact_div:
  fixes n :: nat
  assumes "n < 2 ^ 53"
  shows "fl (of_nat n / 2 ^ k) = of_nat n / 2 ^ k"
proof (cases "n = 0")
  case True
  then show ?thesis by (simp add: fl_def)
next
  case False
  from assms have "int n < 2 ^ 53"
    by simp
  with False have "fl (of_int (int n) * power_int 2 (- int k)) = of_int (int n) * power_int 2 (- int k)"
    by (intro fl_exact) simp_all
  moreover have "power_int (2::rat) (- int k) = 1 / 2 ^ k"
    by (simp add: power_int_minus_divide)
  ultimately show ?thesis by simp
qed

lemma file_size_mb_exact:
  assumes "n < 2 ^ 53"
  shows "file_size_mb n = of_nat n / (1024 * 1024)"
proof -
  have "(1024 * 1024 :: rat) = 2 ^ 20" by simp
  with fl_exact_div [OF assms, of 20] show ?thesis
    by (simp add: file_size_mb_def int_truediv_def)
qed

lemma estimate_minutes_exact:
  assumes "n < 2 ^ 53"
  shows "estimate_minutes n = max ((of_nat n / (1024 * 1024)) / (1 / 2)) (literal (1 / 10))"
proof -
  have "(of_nat n / (1024 * 1024)) / (1 / 2) = (of_nat n :: rat) / 2 ^ 19" by simp
  with fl_exact_div [OF assms, of 19]
  have "fdiv (of_nat n / (1024 * 1024)) (1 / 2) = (of_nat n / (1024 * 1024)) / (1 / 2)"
    by (simp only: fdiv_def)
  then show ?thesis
    by (simp only: estimate_minutes_def file_size_mb_exact [OF assms] literal_half)
qed

lemma literal_tenth: "literal (1 / 10) = 3602879701896397 / 36028797018963968"
  by code_simp

lemma estimate_minutes_1MB: "estimate_minutes (1024 * 1024) = 2"
  by (subst estimate_minutes_exact) (simp_all add: literal_tenth)

lemma estimate_minutes_10KB: "estimate_minutes (10 * 1024) = literal (1 / 10)"
  by (subst estimate_minutes_exact) (simp_all add: literal_tenth)

lemma round_half_even_nearest: "\<bar>x - of_int (round_half_even x)\<bar> \<le> 1 / 2"
proof -
  have "of_int \<lfloor>x\<rfloor> \<le> x" and "x < of_int \<lfloor>x\<rfloor> + 1"
    by linarith+
  then show ?thesis
    by (auto simp: round_half_even_def Let_def abs_le_iff)
qed

lemma round_examples:
  "py_round 2 2 = 2"
  "py_round (literal (1 / 10)) 2 = literal (1 / 10)"
  "py_round (fmul 2 (literal (3 / 1000))) 6 = literal (6 / 1000)"
  "py_round (fmul (literal (1 / 10)) (literal (3 / 1000))) 6 = literal (3 / 10000)"
  "py_round (3 / 16) 2 = literal (19 / 100)"
  "py_round (fmul (3 / 16) (literal (3 / 1000))) 6 = literal (563 / 1000000)"
  "py_round (1 / 8) 2 = literal (12 / 100)"
  "py_round (fmul (1 / 8) (literal (3 / 1000))) 6 = literal (375 / 1000000)"
  by code_simp+

lemma round_changes:
  "literal (19 / 100) \<noteq> 3 / 16"
  "literal (563 / 1000000) \<noteq> fmul (3 / 16) (literal (3 / 1000))"
  by code_simp+

lemma estimate_minutes_96KB: "estimate_minutes (96 * 1024) = 3 / 16"
  by (subst estimate_minutes_exact) (simp_all add: literal_tenth)

lemma estimate_minutes_64KB: "estimate_minutes (64 * 1024) = 1 / 8"
  by (subst estimate_minutes_exact) (simp_all add: literal_tenth)

lemma round_half_even_tie:
  assumes "\<bar>x - of_int (round_half_even x)\<bar> = 1 / 2"
  shows "even (round_half_even x)"
proof -
  define f where "f = \<lfloor>x\<rfloor>"
  have bounds: "of_int f \<le> x" "x < of_int f + 1"
    unfolding f_def by linarith+
  have k: "round_half_even x =
      (if x - of_int f < 1 / 2 then f
       else if 1 / 2 < x - of_int f then f + 1
       else if even f then f else f + 1)"
    by (simp add: round_half_even_def Let_def f_def)
  show ?thesis
  proof (cases "x - of_int f < 1 / 2")
    case True
    with k bounds assms show ?thesis by (simp add: abs_if split: if_splits)
  next
    case False
    show ?thesis
    proof (cases "1 / 2 < x - of_int f")
      case True
      with k bounds assms show ?thesis by (simp add: abs_if split: if_splits)
    next
      case False
      with \<open>\<not> x - of_int f < 1 / 2\<close> k show ?thesis by simp
    qed
  qed
qed

lemma py_round_nearest_decimal:
  "\<exists>k::int. py_round x nd = fl (of_int k / 10 ^ nd)
      \<and> \<bar>x * 10 ^ nd - of_int k\<bar> \<le> 1 / 2
      \<and> (\<bar>x * 10 ^ nd - of_int k\<bar> = 1 / 2 \<longrightarrow> even k)"
  unfolding py_round_def using round_half_even_nearest round_half_even_tie by blast

text \<open>What a response the handler returns holds: the payload was not empty, and the two
  estimates are the rounded values of lines 184 and 185.\<close>

lemma transcribe_audio_v1_Inr:
  assumes "transcribe_audio_v1 e audio w = (Inr r, w')"
  shows "payload audio \<noteq> []
       \<and> estimated_cost r
           = py_round (fmul (estimate_minutes (length (payload audio))) (literal (3 / 1000))) 6
       \<and> estimated_minutes r = py_round (estimate_minutes (length (payload audio))) 2"
  using assms
  by (auto simp: transcribe_audio_v1_def transcribe_body_def try_block_def Let_def
      split: if_splits option.splits sum.splits exn.splits prod.splits)

subsection \<open>Rejections before the upload is staged\<close>

text \<open>
  Claim C10. An upload whose declared filename is the empty string gets the answer of an
  upload without a filename: the handler raises the 400 error
  \<^verbatim>\<open>No audio file provided\<close> and leaves the world as it was, so the trace holds no
  \<open>UploadRead\<close>: the bytes are not read.
\<close>

theorem empty_filename_as_missing:
  "transcribe_audio_v1 e (audio\<lparr>filename := Some []\<rparr>) w
     = (Inl (HTTPException 400 ''No audio file provided''), w)
   \<and> transcribe_audio_v1 e (audio\<lparr>filename := Some []\<rparr>) w
     = transcribe_audio_v1 e (audio\<lparr>filename := None\<rparr>) w"
  by (simp add: transcribe_audio_v1_def transcribe_body_def falsy_def HTTP_400_BAD_REQUEST_def)

text \<open>
  Claim C8. An upload with a non-empty filename whose extension, as line 129 computes it,
  is supported, and with an empty payload, is answered with the 400 error
  \<^verbatim>\<open>Empty audio file\<close>. The only effect is reading the upload: no outbound call is made
  and the filesystem is not touched.
\<close>

theorem empty_payload_rejected:
  assumes "filename audio = Some name" and "name \<noteq> []"
    and "''.'' @ lower (last (split_str CHR ''.'' name)) \<in> SUPPORTED_FORMATS"
    and "payload audio = []"
  shows "transcribe_audio_v1 e audio w
           = (Inl (HTTPException 400 ''Empty audio file''), w\<lparr>trace := trace w @ [UploadRead]\<rparr>)
         \<and> api_calls (trace (snd (transcribe_audio_v1 e audio w))) = api_calls (trace w)
         \<and> files (snd (transcribe_audio_v1 e audio w)) = files w"
  using assms
  by (simp add: transcribe_audio_v1_def transcribe_body_def falsy_def parse_extension_def
      HTTP_400_BAD_REQUEST_def api_calls_append)

theorem empty_payload_rejected_witness:
  "transcribe_audio_v1 answering_env
       \<lparr>filename = Some ''memo.wav'', content_type = Some ''audio/wav'', payload = []\<rparr> empty_world
     = (Inl (HTTPException 400 ''Empty audio file''), empty_world\<lparr>trace := [UploadRead]\<rparr>)"
  using empty_payload_rejected [of "\<lparr>filename = Some ''memo.wav'', content_type = Some ''audio/wav'', payload = []\<rparr>"
      "''memo.wav''" answering_env empty_world]
  by (simp add: lower_def lower_char_def SUPPORTED_FORMATS_def empty_world_def)

text \<open>
  Claim C7. An upload with a non-empty filename whose extension, as line 129 computes it
  (a dot and the lower-cased text after the last dot of the name), is outside the
  supported set is answered with a 400 error, and the world is left as it was. The
  message is \<^verbatim>\<open>Unsupported audio format. Supported formats: \<close> followed by the formats
  joined with \<^verbatim>\<open>, \<close> in the order Python iterates over the set, so each supported format
  occurs in it.
\<close>

theorem unsupported_extension_rejected:
  assumes "filename audio = Some name" and "name \<noteq> []"
    and "''.'' @ lower (last (split_str CHR ''.'' name)) \<notin> SUPPORTED_FORMATS"
    and "set (formats_order e) = SUPPORTED_FORMATS"
  shows "transcribe_audio_v1 e audio w
           = (Inl (HTTPException 400
                (''Unsupported audio format. Supported formats: '' @ join '', '' (formats_order e))), w)
         \<and> (\<forall>f\<in>SUPPORTED_FORMATS.
               sublist f (''Unsupported audio format. Supported formats: ''
                            @ join '', '' (formats_order e)))"
proof -
  have "transcribe_audio_v1 e audio w
           = (Inl (HTTPException 400
                (''Unsupported audio format. Supported formats: '' @ join '', '' (formats_order e))), w)"
    using assms(1-3)
    by (simp add: transcribe_audio_v1_def transcribe_body_def falsy_def parse_extension_Some
        HTTP_400_BAD_REQUEST_def)
  moreover have "sublist f (''Unsupported audio format. Supported formats: ''
                            @ join '', '' (formats_order e))" if "f \<in> SUPPORTED_FORMATS" for f
    using that assms(4) by (intro sublist_append_left sublist_join) simp
  ultimately show ?thesis by blast
qed

theorem unsupported_extension_rejected_witness:
  "transcribe_audio_v1 failing_env
       \<lparr>filename = Some ''notes.txt'', content_type = Some ''text/plain'', payload = [1, 2, 3]\<rparr>
       empty_world
     = (Inl (HTTPException 400
          ''Unsupported audio format. Supported formats: .webm, .wav, .m4a, .ogg, .mp3''), empty_world)
   \<and> sublist ''.ogg'' ''Unsupported audio format. Supported formats: .webm, .wav, .m4a, .ogg, .mp3''"
proof -
  have order: "set (formats_order failing_env) = SUPPORTED_FORMATS"
    by (auto simp: failing_env_def SUPPORTED_FORMATS_def)
  have ext: "''.'' @ lower (last (split_str CHR ''.'' ''notes.txt'')) \<notin> SUPPORTED_FORMATS"
    by (simp add: lower_def lower_char_def SUPPORTED_FORMATS_def)
  have ogg: "''.ogg'' \<in> SUPPORTED_FORMATS"
    by (simp add: SUPPORTED_FORMATS_def)
  show ?thesis
    using unsupported_extension_rejected [of
        "\<lparr>filename = Some ''notes.txt'', content_type = Some ''text/plain'', payload = [1, 2, 3]\<rparr>"
        "''notes.txt''" failing_env empty_world, OF _ _ ext order] ogg
    by (simp add: failing_env_def)
qed

text \<open>
  Claim C9. The handler answers with status 400 exactly when the filename is missing or
  empty, or the extension of line 129 is not supported, or the payload is empty. Whenever
  it does, the filesystem is as before and the trace has gained no filesystem event and
  no outbound call: the world is unchanged, or differs by the single event of reading the
  upload (the empty-payload rejection).
\<close>

theorem invalid_request_no_effects:
  assumes "transcribe_audio_v1 e audio w = (r, w')"
  shows "((\<exists>d. r = Inl (HTTPException 400 d))
            \<longleftrightarrow> (falsy (filename audio)
                 \<or> (\<exists>x. parse_extension (filename audio) = Some x \<and> x \<notin> SUPPORTED_FORMATS)
                 \<or> payload audio = []))
       \<and> ((\<exists>d. r = Inl (HTTPException 400 d))
            \<longrightarrow> files w' = files w
                \<and> fs_events (trace w') = fs_events (trace w)
                \<and> api_calls (trace w') = api_calls (trace w)
                \<and> (w' = w \<or> w' = w\<lparr>trace := trace w @ [UploadRead]\<rparr>))"
proof -
  have cause: "(\<exists>d. r = Inl (HTTPException 400 d))
            \<longleftrightarrow> (falsy (filename audio)
                 \<or> (\<exists>x. parse_extension (filename audio) = Some x \<and> x \<notin> SUPPORTED_FORMATS)
                 \<or> payload audio = [])"
    using assms
    by (auto simp: transcribe_audio_v1_def transcribe_body_def Let_def try_block_not_Http
        HTTP_400_BAD_REQUEST_def HTTP_500_INTERNAL_SERVER_ERROR_def
        split: if_splits option.splits sum.splits exn.splits prod.splits)
  have "w' = w \<or> w' = w\<lparr>trace := trace w @ [UploadRead]\<rparr>" if "r = Inl (HTTPException 400 d)" for d
    using assms that
    by (auto simp: transcribe_audio_v1_def transcribe_body_def Let_def try_block_not_Http
        HTTP_400_BAD_REQUEST_def HTTP_500_INTERNAL_SERVER_ERROR_def
        split: if_splits option.splits sum.splits exn.splits prod.splits)
  then have "(\<exists>d. r = Inl (HTTPException 400 d))
            \<longrightarrow> files w' = files w
                \<and> fs_events (trace w') = fs_events (trace w)
                \<and> api_calls (trace w') = api_calls (trace w)
                \<and> (w' = w \<or> w' = w\<lparr>trace := trace w @ [UploadRead]\<rparr>)"
    by (auto simp: fs_events_append api_calls_append)
  with cause show ?thesis by blast
qed

theorem invalid_request_no_effects_witness:
  "transcribe_audio_v1 answering_env
       \<lparr>filename = Some ''memo.wav'', content_type = None, payload = []\<rparr> empty_world
     = (Inl (HTTPException 400 ''Empty audio file''), empty_world\<lparr>trace := [UploadRead]\<rparr>)
   \<and> files (empty_world\<lparr>trace := [UploadRead]\<rparr>) = files empty_world
   \<and> fs_events (trace (empty_world\<lparr>trace := [UploadRead]\<rparr>)) = fs_events (trace empty_world)
   \<and> api_calls (trace (empty_world\<lparr>trace := [UploadRead]\<rparr>)) = api_calls (trace empty_world)"
proof -
  have run: "transcribe_audio_v1 answering_env
       \<lparr>filename = Some ''memo.wav'', content_type = None, payload = []\<rparr> empty_world
     = (Inl (HTTPException 400 ''Empty audio file''), empty_world\<lparr>trace := [UploadRead]\<rparr>)"
    by (simp add: transcribe_audio_v1_def transcribe_body_def falsy_def parse_extension_def
        lower_def lower_char_def SUPPORTED_FORMATS_def HTTP_400_BAD_REQUEST_def empty_world_def)
  from invalid_request_no_effects [OF run] run show ?thesis
    by blast
qed

subsection \<open>The staged file\<close>

text \<open>
  Claim C3. If a temporary file was created at \<open>p\<close> while the handler ran, then, whatever
  the transcription service did (answered or raised), when the handler returns no file
  exists at \<open>p\<close>, the filesystem is the one the request started with, and the unlink of
  \<open>p\<close> is the handler's last effect.
\<close>

theorem staged_file_removed:
  assumes run: "transcribe_audio_v1 e audio w = (r, w')"
    and created: "FileCreate p \<in> set (drop (length (trace w)) (trace w'))"
  shows "files w' p = None \<and> files w' = files w \<and> last (trace w') = FileUnlink p"
proof (cases "falsy (filename audio)")
  case True
  with run have "w' = w"
    by (simp add: transcribe_audio_v1_def transcribe_body_def)
  with created show ?thesis by simp
next
  case False
  then obtain name where name: "filename audio = Some name" "name \<noteq> []"
    by (auto simp: falsy_def split: option.splits)
  let ?ext = "''.'' @ lower (last (split_str CHR ''.'' name))"
  show ?thesis
  proof (cases "?ext \<in> SUPPORTED_FORMATS")
    case False
    with run name have "w' = w"
      by (simp add: transcribe_audio_v1_def transcribe_body_def falsy_def parse_extension_Some)
    with created show ?thesis by simp
  next
    case supported: True
    show ?thesis
    proof (cases "payload audio = []")
      case True
      with run name supported have "w' = w\<lparr>trace := trace w @ [UploadRead]\<rparr>"
        by (simp add: transcribe_audio_v1_def transcribe_body_def falsy_def parse_extension_Some)
      with created show ?thesis by simp
    next
      case nonempty: False
      show ?thesis
      proof (cases "NamedTemporaryFile (files w) (tmp_dir e) (tmp_names e) ?ext")
        case None
        with run name supported nonempty have "w' = w\<lparr>trace := trace w @ [UploadRead]\<rparr>"
          by (simp add: transcribe_audio_v1_def transcribe_body_def falsy_def
              parse_extension_Some effective_extension_Some Let_def)
        with created show ?thesis by simp
      next
        case (Some q)
        from Some have fresh: "files w q = None"
          by (rule NamedTemporaryFile_fresh)
        from run transcribe_audio_v1_staged [OF name supported nonempty Some]
        have w': "w' = w\<lparr>trace := trace w @ [UploadRead, FileCreate q, FileWrite q (payload audio),
                              ApiCall TRANSCRIBE_MODEL (payload audio) ''json'', FileUnlink q]\<rparr>"
          by simp
        with created have "p = q" by simp
        with w' fresh show ?thesis by simp
      qed
    qed
  qed
qed

theorem staged_file_removed_witness:
  "transcribe_audio_v1 answering_env
       \<lparr>filename = Some ''memo.wav'', content_type = None, payload = [7]\<rparr> empty_world
     = (Inr \<lparr>text_str = ''hello world'', model_used = ''gpt-4o-mini-transcribe'',
             processing_time_ms = 1000,
             estimated_cost = py_round (fmul (estimate_minutes 1) (literal (3 / 1000))) 6,
             estimated_minutes = py_round (estimate_minutes 1) 2\<rparr>,
        empty_world\<lparr>trace := [UploadRead, FileCreate ''/tmp/tmpk3x9a0pq.wav'',
           FileWrite ''/tmp/tmpk3x9a0pq.wav'' [7],
           ApiCall ''gpt-4o-mini-transcribe'' [7] ''json'', FileUnlink ''/tmp/tmpk3x9a0pq.wav'']\<rparr>)
   \<and> transcribe_audio_v1 failing_env
       \<lparr>filename = Some ''memo.wav'', content_type = None, payload = [7]\<rparr> empty_world
     = (Inl (HTTPException 500 ''Transcription failed: Connection error.''),
        empty_world\<lparr>trace := [UploadRead, FileCreate ''/tmp/tmpk3x9a0pq.wav'',
           FileWrite ''/tmp/tmpk3x9a0pq.wav'' [7],
           ApiCall ''gpt-4o-mini-transcribe'' [7] ''json'', FileUnlink ''/tmp/tmpk3x9a0pq.wav'']\<rparr>)
   \<and> files empty_world ''/tmp/tmpk3x9a0pq.wav'' = None"
proof -
  let ?audio = "\<lparr>filename = Some ''memo.wav'', content_type = None, payload = [7]\<rparr>"
  let ?w' = "empty_world\<lparr>trace := [UploadRead, FileCreate ''/tmp/tmpk3x9a0pq.wav'',
           FileWrite ''/tmp/tmpk3x9a0pq.wav'' [7],
           ApiCall ''gpt-4o-mini-transcribe'' [7] ''json'', FileUnlink ''/tmp/tmpk3x9a0pq.wav'']\<rparr>"
  have run_ok: "transcribe_audio_v1 answering_env ?audio empty_world
     = (Inr \<lparr>text_str = ''hello world'', model_used = ''gpt-4o-mini-transcribe'',
             processing_time_ms = 1000,
             estimated_cost = py_round (fmul (estimate_minutes 1) (literal (3 / 1000))) 6,
             estimated_minutes = py_round (estimate_minutes 1) 2\<rparr>, ?w')"
    by (subst transcribe_audio_v1_staged [where name = "''memo.wav''" and p = "''/tmp/tmpk3x9a0pq.wav''"])
      (simp_all add: lower_def lower_char_def SUPPORTED_FORMATS_def answering_env_def empty_world_def TRANSCRIBE_MODEL_def
        py_int_def fmul_def fsub_def fl_def ilog2_def round_half_even_def bitlen_def compute_floorlog)
  have run_fail: "transcribe_audio_v1 failing_env ?audio empty_world
     = (Inl (HTTPException 500 ''Transcription failed: Connection error.''), ?w')"
    by (subst transcribe_audio_v1_staged [where name = "''memo.wav''" and p = "''/tmp/tmpk3x9a0pq.wav''"])
      (simp_all add: lower_def lower_char_def SUPPORTED_FORMATS_def failing_env_def empty_world_def TRANSCRIBE_MODEL_def)
  have created: "FileCreate ''/tmp/tmpk3x9a0pq.wav'' \<in> set (drop (length (trace empty_world)) (trace ?w'))"
    by (simp add: empty_world_def)
  from staged_file_removed [OF run_ok created] staged_file_removed [OF run_fail created]
    run_ok run_fail
  show ?thesis by simp
qed

subsection \<open>Accepted uploads\<close>

text \<open>
  Claim C6. Let the filename be \<open>f.x\<close> where \<open>x\<close>, lower-cased, is one of \<^verbatim>\<open>m4a\<close>,
  \<^verbatim>\<open>mp3\<close>, \<^verbatim>\<open>wav\<close>, \<^verbatim>\<open>ogg\<close>, \<^verbatim>\<open>webm\<close>, and let the payload be non-empty. Then the
  handler never answers with status 400; and when a temporary file can be created and the
  transcription service answers with a text, the handler returns a response carrying that
  text with \<^verbatim>\<open>model_used\<close> equal to \<^verbatim>\<open>gpt-4o-mini-transcribe\<close>, and the one outbound call
  the request adds to the trace was made with that same model identifier, the uploaded
  bytes and the response format \<^verbatim>\<open>json\<close>.
\<close>

theorem supported_extension_accepted:
  assumes name: "filename audio = Some (f @ ''.'' @ x)"
    and supported: "''.'' @ lower x \<in> SUPPORTED_FORMATS"
    and nonempty: "payload audio \<noteq> []"
  shows "(\<forall>d. fst (transcribe_audio_v1 e audio w) \<noteq> Inl (HTTPException 400 d))
       \<and> (\<forall>p t. NamedTemporaryFile (files w) (tmp_dir e) (tmp_names e) (''.'' @ lower x) = Some p
                \<and> transcriptions_create e ''gpt-4o-mini-transcribe'' ''json'' (payload audio) = Inr t
            \<longrightarrow> (\<exists>r. fst (transcribe_audio_v1 e audio w) = Inr r
                     \<and> model_used r = ''gpt-4o-mini-transcribe'' \<and> text_str r = t)
                \<and> api_calls (trace (snd (transcribe_audio_v1 e audio w)))
                    = api_calls (trace w) @ [(''gpt-4o-mini-transcribe'', payload audio, ''json'')])"
proof -
  from supported have "CHR ''.'' \<notin> set x"
    using supported_no_dot [of "lower x"] by (simp add: lower_dot)
  then have last: "last (split_str CHR ''.'' (f @ ''.'' @ x)) = x"
    using last_split_str_append [of "CHR ''.''" x f] by simp
  have ne: "f @ ''.'' @ x \<noteq> []" by simp
  from supported last
  have ext: "''.'' @ lower (last (split_str CHR ''.'' (f @ ''.'' @ x))) \<in> SUPPORTED_FORMATS"
    by simp
  have no400: "fst (transcribe_audio_v1 e audio w) \<noteq> Inl (HTTPException 400 d)" for d
  proof (cases "NamedTemporaryFile (files w) (tmp_dir e) (tmp_names e)
                  (''.'' @ lower (last (split_str CHR ''.'' (f @ ''.'' @ x))))")
    case None
    show ?thesis
      by (simp add: transcribe_audio_v1_no_tempfile [OF name ne ext nonempty None])
  next
    case (Some p)
    show ?thesis
      by (simp add: transcribe_audio_v1_staged [OF name ne ext nonempty Some] split: sum.splits)
  qed
  have ok: "(\<exists>r. fst (transcribe_audio_v1 e audio w) = Inr r
                     \<and> model_used r = ''gpt-4o-mini-transcribe'' \<and> text_str r = t)
                \<and> api_calls (trace (snd (transcribe_audio_v1 e audio w)))
                    = api_calls (trace w) @ [(''gpt-4o-mini-transcribe'', payload audio, ''json'')]"
    if staged: "NamedTemporaryFile (files w) (tmp_dir e) (tmp_names e) (''.'' @ lower x) = Some p"
      and answer: "transcriptions_create e ''gpt-4o-mini-transcribe'' ''json'' (payload audio) = Inr t"
    for p t
  proof -
    from staged last
    have staged': "NamedTemporaryFile (files w) (tmp_dir e) (tmp_names e)
        (''.'' @ lower (last (split_str CHR ''.'' (f @ ''.'' @ x)))) = Some p"
      by simp
    from answer show ?thesis
      by (simp add: transcribe_audio_v1_staged [OF name ne ext nonempty staged']
          TRANSCRIBE_MODEL_def api_calls_append)
  qed
  from no400 ok show ?thesis by blast
qed

theorem supported_extension_accepted_witness:
  "fst (transcribe_audio_v1 answering_env
       \<lparr>filename = Some ''voice.note.MP3'', content_type = Some ''audio/mpeg'', payload = [73, 68, 51]\<rparr>
       empty_world)
     = Inr \<lparr>text_str = ''hello world'', model_used = ''gpt-4o-mini-transcribe'',
            processing_time_ms = 1000,
            estimated_cost = py_round (fmul (estimate_minutes 3) (literal (3 / 1000))) 6,
            estimated_minutes = py_round (estimate_minutes 3) 2\<rparr>
   \<and> api_calls (trace (snd (transcribe_audio_v1 answering_env
       \<lparr>filename = Some ''voice.note.MP3'', content_type = Some ''audio/mpeg'', payload = [73, 68, 51]\<rparr>
       empty_world)))
     = [(''gpt-4o-mini-transcribe'', [73, 68, 51], ''json'')]"
proof -
  let ?audio = "\<lparr>filename = Some ''voice.note.MP3'', content_type = Some ''audio/mpeg'',
                  payload = [73, 68, 51]\<rparr>"
  have low: "lower ''MP3'' = ''mp3''"
    by code_simp
  have name: "filename ?audio = Some (''voice.note'' @ ''.'' @ ''MP3'')"
    by simp
  have supported: "''.'' @ lower ''MP3'' \<in> SUPPORTED_FORMATS"
    by (simp add: low SUPPORTED_FORMATS_def)
  have nonempty: "payload ?audio \<noteq> []"
    by simp
  have staged: "NamedTemporaryFile (files empty_world) (tmp_dir answering_env)
      (tmp_names answering_env) (''.'' @ lower ''MP3'') = Some ''/tmp/tmpk3x9a0pq.mp3''"
    by (simp add: low answering_env_def empty_world_def)
  have answer: "transcriptions_create answering_env ''gpt-4o-mini-transcribe'' ''json''
      (payload ?audio) = Inr ''hello world''"
    by (simp add: answering_env_def)
  have last: "last (split_str CHR ''.'' ''voice.note.MP3'') = ''MP3''"
    by simp
  have ms: "py_int (fmul (fsub (end_time answering_env) (start_time answering_env)) 1000) = 1000"
    by (simp add: answering_env_def py_int_def fmul_def fsub_def fl_def ilog2_def
        round_half_even_def bitlen_def compute_floorlog)
  have run: "fst (transcribe_audio_v1 answering_env ?audio empty_world)
     = Inr \<lparr>text_str = ''hello world'', model_used = ''gpt-4o-mini-transcribe'',
            processing_time_ms = 1000,
            estimated_cost = py_round (fmul (estimate_minutes 3) (literal (3 / 1000))) 6,
            estimated_minutes = py_round (estimate_minutes 3) 2\<rparr>"
    using staged answer ms
    by (subst transcribe_audio_v1_staged [where name = "''voice.note.MP3''"
          and p = "''/tmp/tmpk3x9a0pq.mp3''"])
      (simp_all add: last low SUPPORTED_FORMATS_def TRANSCRIBE_MODEL_def numeral_3_eq_3 [symmetric])
  from supported_extension_accepted [OF name supported nonempty, of answering_env empty_world]
    staged answer run
  show ?thesis
    by (simp add: empty_world_def)
qed

subsection \<open>The missing file\<close>

text \<open>
  Claim C2 as stated, at a request without the \<^verbatim>\<open>audio\<close> field, in the answering
  environment and the empty world: the answer is the framework's validation error with
  status 422, not a 400, and the handler has not run.
\<close>

theorem no_file_field_counterexample:
  "fst (post_transcribe answering_env None empty_world)
     = \<lparr>status = 422, body = RequestValidationError\<rparr>
   \<and> status (fst (post_transcribe answering_env None empty_world)) \<noteq> 400
   \<and> snd (post_transcribe answering_env None empty_world) = empty_world"
  by (simp add: post_transcribe_def)

text \<open>
  Claim C2, amended. When the \<^verbatim>\<open>audio\<close> field is a file part whose filename is the empty
  string, the response has status 400 and the error message \<^verbatim>\<open>No audio file provided\<close>
  (with detail \<^verbatim>\<open>HTTP 400\<close>), and the world is unchanged. A request without the field, or
  with a part that is not a file, does not reach the handler: the response is the
  framework's validation error, status 422.
\<close>

theorem empty_filename_upload_rejected:
  "post_transcribe e (Some (FilePart [] ctype contents)) w
     = (\<lparr>status = 400,
         body = Error \<lparr>error = ''No audio file provided'', detail = Some ''HTTP 400''\<rparr>\<rparr>, w)
   \<and> post_transcribe e None w = (\<lparr>status = 422, body = RequestValidationError\<rparr>, w)
   \<and> post_transcribe e (Some (FormValue v)) w
     = (\<lparr>status = 422, body = RequestValidationError\<rparr>, w)"
  by (simp add: post_transcribe_def transcribe_audio_v1_def transcribe_body_def falsy_def
      http_exception_handler_def HTTP_400_BAD_REQUEST_def str_nat_400)

theorem empty_filename_upload_rejected_witness:
  "post_transcribe answering_env (Some (FilePart [] (Some ''application/octet-stream'') [])) empty_world
     = (\<lparr>status = 400,
         body = Error \<lparr>error = ''No audio file provided'', detail = Some ''HTTP 400''\<rparr>\<rparr>,
        empty_world)"
  using empty_filename_upload_rejected [of answering_env "Some ''application/octet-stream''" "[]"
      empty_world]
  by blast

subsection \<open>A filename without an extension\<close>

text \<open>
  For a name without a dot, \<^verbatim>\<open>split('.')[-1]\<close> is the whole name, so line 129 takes a dot
  followed by the lower-cased name as the extension. The default of lines 136 and 137 is
  never taken once the filename is truthy: the extension line 129 computes is kept.
\<close>

lemma parse_extension_no_dot:
  "name \<noteq> [] \<Longrightarrow> CHR ''.'' \<notin> set name \<Longrightarrow>
   parse_extension (Some name) = Some (''.'' @ lower name)"
  by (simp add: parse_extension_def split_str_no_sep)

lemma default_extension_not_taken:
  "name \<noteq> [] \<Longrightarrow>
   effective_extension (parse_extension (Some name))
     = ''.'' @ lower (last (split_str CHR ''.'' name))"
  by (simp add: parse_extension_def effective_extension_def falsy_def)

text \<open>
  Claim C1 at the upload named \<^verbatim>\<open>recording\<close> with two bytes of payload: the handler does
  not go on with \<^verbatim>\<open>.m4a\<close>; it takes \<^verbatim>\<open>.recording\<close> as the extension and answers with the
  400 format error.
\<close>

theorem extensionless_filename_rejected:
  "transcribe_audio_v1 answering_env
       \<lparr>filename = Some ''recording'', content_type = Some ''audio/mp4'', payload = [1, 2]\<rparr>
       empty_world
     = (Inl (HTTPException 400
          ''Unsupported audio format. Supported formats: .m4a, .mp3, .wav, .ogg, .webm''),
        empty_world)"
  by (simp add: transcribe_audio_v1_def transcribe_body_def falsy_def parse_extension_def
      lower_def lower_char_def SUPPORTED_FORMATS_def HTTP_400_BAD_REQUEST_def answering_env_def)

subsection \<open>The estimates\<close>

text \<open>
  Claim C4. Let the handler return a response for a payload of \<open>n\<close> bytes, \<open>n\<close> below
  \<open>2^53\<close>. The payload is not empty, and the estimate the inner \<^verbatim>\<open>try\<close> computes from
  \<^verbatim>\<open>len(audio_data)\<close> (lines 157 and 158) is the larger of the exact quotient
  \<open>n / (1024 * 1024) / 0.5\<close> and the float \<^verbatim>\<open>0.1\<close>, neither division rounding: the
  response reports that value rounded to two decimals, and its product with \<^verbatim>\<open>0.003\<close>
  rounded to six. For a payload of 1 MB the response reports \<open>2\<close> minutes (and the cost
  \<^verbatim>\<open>0.006\<close>), for one of 10 KB the float \<^verbatim>\<open>0.1\<close> (and the cost \<^verbatim>\<open>0.0003\<close>).
\<close>

theorem estimated_minutes_formula:
  assumes run: "transcribe_audio_v1 e audio w = (Inr r, w')"
    and size: "length (payload audio) < 2 ^ 53"
  shows "payload audio \<noteq> []
       \<and> estimated_minutes r
           = py_round (max ((of_nat (length (payload audio)) / (1024 * 1024)) / (1 / 2))
                           (literal (1 / 10))) 2
       \<and> estimated_cost r
           = py_round (fmul (max ((of_nat (length (payload audio)) / (1024 * 1024)) / (1 / 2))
                                 (literal (1 / 10)))
                            (literal (3 / 1000))) 6
       \<and> (length (payload audio) = 1024 * 1024 \<longrightarrow>
            estimated_minutes r = 2 \<and> estimated_cost r = literal (6 / 1000))
       \<and> (length (payload audio) = 10 * 1024 \<longrightarrow>
            estimated_minutes r = literal (1 / 10) \<and> estimated_cost r = literal (3 / 10000))"
proof -
  note fields = transcribe_audio_v1_Inr [OF run]
  have exact: "estimate_minutes (length (payload audio))
      = max ((of_nat (length (payload audio)) / (1024 * 1024)) / (1 / 2)) (literal (1 / 10))"
    using size by (rule estimate_minutes_exact)
  have general: "payload audio \<noteq> []
       \<and> estimated_minutes r
           = py_round (max ((of_nat (length (payload audio)) / (1024 * 1024)) / (1 / 2))
                           (literal (1 / 10))) 2
       \<and> estimated_cost r
           = py_round (fmul (max ((of_nat (length (payload audio)) / (1024 * 1024)) / (1 / 2))
                                 (literal (1 / 10)))
                            (literal (3 / 1000))) 6"
    using fields by (simp only: exact simp_thms)
  have mb: "estimated_minutes r = 2 \<and> estimated_cost r = literal (6 / 1000)"
    if "length (payload audio) = 1024 * 1024"
    using fields by (simp only: that estimate_minutes_1MB round_examples simp_thms)
  have kb: "estimated_minutes r = literal (1 / 10) \<and> estimated_cost r = literal (3 / 10000)"
    if "length (payload audio) = 10 * 1024"
    using fields by (simp only: that estimate_minutes_10KB round_examples simp_thms)
  from general mb kb show ?thesis by blast
qed

text \<open>The run on a payload of 1 MB, in the answering environment.\<close>

theorem estimated_minutes_formula_witness:
  "fst (transcribe_audio_v1 answering_env
       \<lparr>filename = Some ''memo.wav'', content_type = None, payload = replicate (1024 * 1024) 0\<rparr>
       empty_world)
     = Inr \<lparr>text_str = ''hello world'', model_used = ''gpt-4o-mini-transcribe'',
            processing_time_ms = 1000,
            estimated_cost = literal (6 / 1000),
            estimated_minutes = 2\<rparr>"
proof -
  let ?audio = "\<lparr>filename = Some ''memo.wav'', content_type = None,
                  payload = replicate (1024 * 1024) (0 :: 8 word)\<rparr>"
  let ?r = "\<lparr>text_str = ''hello world'', model_used = ''gpt-4o-mini-transcribe'',
             processing_time_ms = 1000,
             estimated_cost = py_round (fmul (estimate_minutes (1024 * 1024)) (literal (3 / 1000))) 6,
             estimated_minutes = py_round (estimate_minutes (1024 * 1024)) 2\<rparr>"
  have ms: "py_int (fmul (fsub 101 100) 1000) = 1000"
    by code_simp
  have "fst (transcribe_audio_v1 answering_env ?audio empty_world) = Inr ?r"
    by (subst transcribe_audio_v1_staged [where name = "''memo.wav''" and p = "''/tmp/tmpk3x9a0pq.wav''"])
      (simp_all add: lower_def lower_char_def SUPPORTED_FORMATS_def answering_env_def
        empty_world_def TRANSCRIBE_MODEL_def ms)
  then have run: "transcribe_audio_v1 answering_env ?audio empty_world
      = (Inr ?r, snd (transcribe_audio_v1 answering_env ?audio empty_world))"
    by (metis prod.collapse)
  have size: "length (payload ?audio) < 2 ^ 53"
    by simp
  have len: "length (payload ?audio) = 1024 * 1024"
    by simp
  from estimated_minutes_formula [OF run size] len
  have "estimated_minutes ?r = 2 \<and> estimated_cost ?r = literal (6 / 1000)"
    by blast
  then have "?r = \<lparr>text_str = ''hello world'', model_used = ''gpt-4o-mini-transcribe'',
            processing_time_ms = 1000,
            estimated_cost = literal (6 / 1000),
            estimated_minutes = 2\<rparr>"
    by simp
  with run show ?thesis
    by (metis fst_conv)
qed

text \<open>
  Claim C5. In every response the handler returns, \<^verbatim>\<open>estimated_cost\<close> is the float
  product of the estimate and \<^verbatim>\<open>0.003\<close> rounded by \<^verbatim>\<open>round(_, 6)\<close>, and
  \<^verbatim>\<open>estimated_minutes\<close> is the estimate rounded by \<^verbatim>\<open>round(_, 2)\<close>. Rounding to \<open>d\<close>
  decimals means: the reported value is the float nearest to \<open>k / 10^d\<close> for an integer
  \<open>k\<close> within one half of the unrounded value times \<open>10^d\<close>, and \<open>k\<close> is even when the
  distance is exactly one half. An estimate of \<open>2.0\<close> minutes (a payload of 1 MB) gives
  the cost \<^verbatim>\<open>0.006\<close>. A payload of 96 KB has the estimate \<open>0.1875\<close> and the float product
  \<^verbatim>\<open>0.0005625000000000001\<close>: the response reports \<^verbatim>\<open>0.19\<close> and \<^verbatim>\<open>0.000563\<close>, both changed
  by the rounding. A payload of 64 KB has the estimate \<open>0.125\<close>, a tie, reported as \<^verbatim>\<open>0.12\<close>.
\<close>

theorem reported_estimates:
  assumes run: "transcribe_audio_v1 e audio w = (Inr r, w')"
  shows "estimated_cost r
           = py_round (fmul (estimate_minutes (length (payload audio))) (literal (3 / 1000))) 6
       \<and> estimated_minutes r = py_round (estimate_minutes (length (payload audio))) 2
       \<and> (\<exists>k::int. estimated_cost r = fl (of_int k / 10 ^ 6)
             \<and> \<bar>fmul (estimate_minutes (length (payload audio))) (literal (3 / 1000)) * 10 ^ 6
                  - of_int k\<bar> \<le> 1 / 2
             \<and> (\<bar>fmul (estimate_minutes (length (payload audio))) (literal (3 / 1000)) * 10 ^ 6
                  - of_int k\<bar> = 1 / 2 \<longrightarrow> even k))
       \<and> (\<exists>k::int. estimated_minutes r = fl (of_int k / 10 ^ 2)
             \<and> \<bar>estimate_minutes (length (payload audio)) * 10 ^ 2 - of_int k\<bar> \<le> 1 / 2
             \<and> (\<bar>estimate_minutes (length (payload audio)) * 10 ^ 2 - of_int k\<bar> = 1 / 2
                  \<longrightarrow> even k))
       \<and> (length (payload audio) = 1024 * 1024 \<longrightarrow>
            estimated_minutes r = 2 \<and> estimated_cost r = literal (6 / 1000))
       \<and> (length (payload audio) = 96 * 1024 \<longrightarrow>
            estimated_minutes r = literal (19 / 100) \<and> literal (19 / 100) \<noteq> 3 / 16
            \<and> estimated_cost r = literal (563 / 1000000)
            \<and> literal (563 / 1000000) \<noteq> fmul (3 / 16) (literal (3 / 1000)))
       \<and> (length (payload audio) = 64 * 1024 \<longrightarrow>
            estimated_minutes r = literal (12 / 100)
            \<and> estimated_cost r = literal (375 / 1000000))"
proof -
  let ?minutes = "estimate_minutes (length (payload audio))"
  let ?cost = "fmul ?minutes (literal (3 / 1000))"
  from transcribe_audio_v1_Inr [OF run]
  have cost: "estimated_cost r = py_round ?cost 6"
    and minutes: "estimated_minutes r = py_round ?minutes 2"
    by simp_all
  have cost_dec: "\<exists>k::int. estimated_cost r = fl (of_int k / 10 ^ 6)
             \<and> \<bar>?cost * 10 ^ 6 - of_int k\<bar> \<le> 1 / 2
             \<and> (\<bar>?cost * 10 ^ 6 - of_int k\<bar> = 1 / 2 \<longrightarrow> even k)"
    unfolding cost by (rule py_round_nearest_decimal)
  have minutes_dec: "\<exists>k::int. estimated_minutes r = fl (of_int k / 10 ^ 2)
             \<and> \<bar>?minutes * 10 ^ 2 - of_int k\<bar> \<le> 1 / 2
             \<and> (\<bar>?minutes * 10 ^ 2 - of_int k\<bar> = 1 / 2 \<longrightarrow> even k)"
    unfolding minutes by (rule py_round_nearest_decimal)
  have mb: "estimated_minutes r = 2 \<and> estimated_cost r = literal (6 / 1000)"
    if "length (payload audio) = 1024 * 1024"
    using cost minutes by (simp only: that estimate_minutes_1MB round_examples simp_thms)
  have kb96: "estimated_minutes r = literal (19 / 100) \<and> literal (19 / 100) \<noteq> 3 / 16
            \<and> estimated_cost r = literal (563 / 1000000)
            \<and> literal (563 / 1000000) \<noteq> fmul (3 / 16) (literal (3 / 1000))"
    if "length (payload audio) = 96 * 1024"
    using cost minutes round_changes
    by (simp only: that estimate_minutes_96KB round_examples simp_thms)
  have kb64: "estimated_minutes r = literal (12 / 100)
            \<and> estimated_cost r = literal (375 / 1000000)"
    if "length (payload audio) = 64 * 1024"
    using cost minutes by (simp only: that estimate_minutes_64KB round_examples simp_thms)
  from cost minutes cost_dec minutes_dec mb kb96 kb64 show ?thesis
    by blast
qed

theorem reported_estimates_witness:
  "fst (transcribe_audio_v1 answering_env
       \<lparr>filename = Some ''memo.wav'', content_type = None, payload = replicate (96 * 1024) 0\<rparr>
       empty_world)
     = Inr \<lparr>text_str = ''hello world'', model_used = ''gpt-4o-mini-transcribe'',
            processing_time_ms = 1000,
            estimated_cost = literal (563 / 1000000),
            estimated_minutes = literal (19 / 100)\<rparr>
   \<and> literal (19 / 100) \<noteq> 3 / 16
   \<and> literal (563 / 1000000) \<noteq> fmul (3 / 16) (literal (3 / 1000))"
proof -
  let ?audio = "\<lparr>filename = Some ''memo.wav'', content_type = None,
                  payload = replicate (96 * 1024) (0 :: 8 word)\<rparr>"
  let ?r = "\<lparr>text_str = ''hello world'', model_used = ''gpt-4o-mini-transcribe'',
             processing_time_ms = 1000,
             estimated_cost = py_round (fmul (estimate_minutes (96 * 1024)) (literal (3 / 1000))) 6,
             estimated_minutes = py_round (estimate_minutes (96 * 1024)) 2\<rparr>"
  have ms: "py_int (fmul (fsub 101 100) 1000) = 1000"
    by code_simp
  have "fst (transcribe_audio_v1 answering_env ?audio empty_world) = Inr ?r"
    by (subst transcribe_audio_v1_staged [where name = "''memo.wav''" and p = "''/tmp/tmpk3x9a0pq.wav''"])
      (simp_all add: lower_def lower_char_def SUPPORTED_FORMATS_def answering_env_def
        empty_world_def TRANSCRIBE_MODEL_def ms)
  then have run: "transcribe_audio_v1 answering_env ?audio empty_world
      = (Inr ?r, snd (transcribe_audio_v1 answering_env ?audio empty_world))"
    by (metis prod.collapse)
  have len: "length (payload ?audio) = 96 * 1024"
    by simp
  from reported_estimates [OF run] len
  have "estimated_minutes ?r = literal (19 / 100) \<and> literal (19 / 100) \<noteq> 3 / 16
            \<and> estimated_cost ?r = literal (563 / 1000000)
            \<and> literal (563 / 1000000) \<noteq> fmul (3 / 16) (literal (3 / 1000))"
    by blast
  then have "?r = \<lparr>text_str = ''hello world'', model_used = ''gpt-4o-mini-transcribe'',
            processing_time_ms = 1000,
            estimated_cost = literal (563 / 1000000),
            estimated_minutes = literal (19 / 100)\<rparr>
      \<and> literal (19 / 100) \<noteq> 3 / 16
      \<and> literal (563 / 1000000) \<noteq> fmul (3 / 16) (literal (3 / 1000))"
    by simp
  with run show ?thesis
    by (metis fst_conv)
qed

end
